theory Spec2Isabelle
  imports Complex_Main
begin

section \<open>Data model\<close>

text \<open>
  The handlers of the dealership manager read and write five relational tables through
  a query builder. The model keeps each table as the list of its rows, in insertion
  order, and each handler as a function from the store to a result and the store after
  the call.

  Dates are JavaScript \<open>Date\<close> values: a number of milliseconds since the epoch.
  Monetary columns are \<open>numeric(10, 2)\<close>; a stored amount is kept exactly, as a
  number of cents. The rounding of the doubles that \<open>parseFloat\<close> produces when a
  stored amount is read back is outside this model.
\<close>

type_synonym date = int
type_synonym money = int

datatype vehicle_status = Acquired | Reconditioning | Listed | Sold | Archived

datatype expense_type =
  ExpAcquisition | ExpReconditioning | ExpMarketing | ExpTransport | ExpStorage
  | ExpInspection | ExpRepairs | ExpDetailing | ExpOther

datatype transaction_type = TExpense | TSale | TRefund

text \<open>
  The rows of \<open>vehiclesTable\<close>, \<open>vendorsTable\<close>, \<open>expensesTable\<close> and
  \<open>transactionsTable\<close> of \<open>db/schema.ts\<close>, column by column. What the schema
  declares beyond the columns is modelled where a handler can meet it:
  \<^item> \<open>numeric(10, 2)\<close> on every amount, cost and price: a value written to such a
    column is rounded to two decimal places and refused when the rounded magnitude is
    not below \<open>10^8\<close> (\<open>numeric_10_2\<close> below);
  \<^item> the foreign keys \<open>expenses.vehicle_id\<close>, \<open>expenses.vendor_id\<close> and
    \<open>transactions.vehicle_id\<close>: the handlers look the referenced row up before they
    insert, and delete the referencing rows before the referenced one; the one write
    that can reach the database with a dangling reference is the \<open>UPDATE\<close> of
    \<open>updateExpense\<close>, which checks the key;
  \<^item> every \<open>id\<close> is a \<open>serial\<close> primary key. The model keeps ids as unbounded
    integers: a sequence that runs out of the 32-bit range, and a request whose id the
    database cannot read as a 32-bit integer, are outside the model.
\<close>

record vehicle =
  v_id :: int
  v_vin :: string
  v_make :: string
  v_model :: string
  v_year :: int
  v_color :: string
  v_mileage :: int
  v_status :: vehicle_status
  v_acquisition_date :: date
  v_acquisition_cost :: money
  v_listing_price :: "money option"
  v_sale_price :: "money option"
  v_sale_date :: "date option"
  v_notes :: "string option"
  v_created_at :: date
  v_updated_at :: date

record vendor =
  vd_id :: int
  vd_name :: string
  vd_contact_info :: "string option"
  vd_created_at :: date

record expense =
  e_id :: int
  e_vehicle_id :: int
  e_vendor_id :: "int option"
  e_amount :: money
  e_expense_type :: expense_type
  e_description :: string
  e_expense_date :: date
  e_created_at :: date

record transaction =
  t_id :: int
  t_vehicle_id :: int
  t_type :: transaction_type
  t_amount :: money
  t_description :: string
  t_transaction_date :: date
  t_created_at :: date

text \<open>
  The store: the four tables the handlers below touch, and the two serial sequences
  that hand out the ids of inserted expenses and transactions.
\<close>

record store =
  vehicles :: "vehicle list"
  vendors :: "vendor list"
  expenses :: "expense list"
  transactions :: "transaction list"
  next_expense_id :: int
  next_transaction_id :: int

text \<open>
  Every handler throws a plain \<open>Error\<close> with a message; the first five constructors
  stand for the messages \<open>Vehicle ... not found\<close>, \<open>Vendor ... not found\<close>,
  \<open>Expense not found\<close>, \<open>Transaction with ID ... not found\<close> and
  \<open>Cannot delete vendor with id ... because it has associated expenses\<close>. The last
  three are not the handlers' own: the database's \<open>numeric field overflow\<close> and
  foreign-key violation, and the query builder's \<open>No values to set\<close>; the handlers
  rethrow them unchanged.
\<close>

datatype error =
  VehicleNotFound | VendorNotFound | ExpenseNotFound | TransactionNotFound
  | VendorHasExpenses
  | NumericFieldOverflow | ForeignKeyViolation | NoValuesToSet

record delete_result =
  success :: bool

text \<open>
  The handlers test optional values by JavaScript truthiness (\<open>if (filters?.make)\<close>,
  \<open>if (input.vendor_id)\<close>): an object such as a \<open>Date\<close> and a non-empty enum name
  are truthy whenever they are present, a string is truthy unless it is empty, a
  number unless it is 0.
\<close>

definition truthy_object :: "'a option \<Rightarrow> bool" where
  "truthy_object x = (x \<noteq> None)"

definition truthy_string :: "string option \<Rightarrow> bool" where
  "truthy_string x = (case x of None \<Rightarrow> False | Some str \<Rightarrow> str \<noteq> [])"

definition truthy_number :: "int option \<Rightarrow> bool" where
  "truthy_number x = (case x of None \<Rightarrow> False | Some n \<Rightarrow> n \<noteq> 0)"

text \<open>
  An amount of an input is a JavaScript number, sent to the database as the decimal
  text of \<open>toString()\<close>; the model takes it as that decimal, a rational number.
  Written to a \<open>numeric(10, 2)\<close> column it is rounded to two places, ties away from
  zero, and the statement fails with \<open>numeric field overflow\<close> unless the rounded
  value is below \<open>10^8\<close> in magnitude, that is below \<open>10^10\<close> cents.
\<close>

definition round_half_away :: "rat \<Rightarrow> int" where
  "round_half_away x = (if 0 \<le> x then \<lfloor>x + 1 / 2\<rfloor> else - \<lfloor>- x + 1 / 2\<rfloor>)"

definition numeric_10_2 :: "rat \<Rightarrow> money option" where
  "numeric_10_2 x =
     (let cents = round_half_away (x * 100)
      in if \<bar>cents\<bar> < 10000000000 then Some cents else None)"

section \<open>Transactions\<close>

record create_transaction_input =
  cti_vehicle_id :: int
  cti_type :: transaction_type
  cti_amount :: rat
  cti_description :: string
  cti_transaction_date :: "date option"

text \<open>
  \<open>createTransaction\<close>: the vehicle is looked up first; the row is inserted with the
  next id of the sequence and \<open>input.transaction_date || new Date()\<close>; for a sale the
  vehicle rows with that id are then updated. \<open>now\<close> is the value of \<open>new Date()\<close>
  during the call. The insert is the first write: when the amount does not fit
  \<open>numeric(10, 2)\<close> it fails and no table has changed (whether the refused insert
  has consumed a value of the sequence is left out). The amount the row holds, and the
  one \<open>sale_price\<close> gets, is the rounded one; the vehicle exists, so the foreign key
  of the insert holds.
\<close>

definition mark_sold :: "date \<Rightarrow> int \<Rightarrow> money \<Rightarrow> date \<Rightarrow> vehicle \<Rightarrow> vehicle" where
  "mark_sold now vid amount d v =
     (if v_id v = vid
      then v\<lparr>v_status := Sold, v_sale_price := Some amount, v_sale_date := Some d,
             v_updated_at := now\<rparr>
      else v)"

definition createTransaction ::
  "date \<Rightarrow> create_transaction_input \<Rightarrow> store \<Rightarrow> (error + transaction) \<times> store" where
  "createTransaction now input s =
     (case filter (\<lambda>v. v_id v = cti_vehicle_id input) (vehicles s) of
        [] \<Rightarrow> (Inl VehicleNotFound, s)
      | vehicle # _ \<Rightarrow>
          (case numeric_10_2 (cti_amount input) of
             None \<Rightarrow> (Inl NumericFieldOverflow, s)
           | Some amount \<Rightarrow>
               let transaction =
                     \<lparr>t_id = next_transaction_id s,
                      t_vehicle_id = cti_vehicle_id input,
                      t_type = cti_type input,
                      t_amount = amount,
                      t_description = cti_description input,
                      t_transaction_date =
                        (case cti_transaction_date input of Some d \<Rightarrow> d | None \<Rightarrow> now),
                      t_created_at = now\<rparr>;
                   s1 = s\<lparr>transactions := transactions s @ [transaction],
                           next_transaction_id := next_transaction_id s + 1\<rparr>;
                   s2 = (if cti_type input = TSale
                         then s1\<lparr>vehicles :=
                                map (mark_sold now (cti_vehicle_id input) amount
                                       (t_transaction_date transaction))
                                    (vehicles s1)\<rparr>
                         else s1)
               in (Inr transaction, s2)))"

definition getTransactionById :: "int \<Rightarrow> store \<Rightarrow> transaction option" where
  "getTransactionById i s =
     (case filter (\<lambda>t. t_id t = i) (transactions s) of
        [] \<Rightarrow> None
      | transaction # _ \<Rightarrow> Some transaction)"

text \<open>
  \<open>deleteTransaction\<close>: the row is looked up; when it is a sale, the vehicle rows of its
  \<open>vehicle_id\<close> are reverted, whatever their status and whatever other transactions
  exist; then the rows with the id are deleted.
\<close>

definition revert_sale :: "date \<Rightarrow> int \<Rightarrow> vehicle \<Rightarrow> vehicle" where
  "revert_sale now vid v =
     (if v_id v = vid
      then v\<lparr>v_status := Listed, v_sale_price := None, v_sale_date := None,
             v_updated_at := now\<rparr>
      else v)"

definition deleteTransaction :: "date \<Rightarrow> int \<Rightarrow> store \<Rightarrow> (error + delete_result) \<times> store" where
  "deleteTransaction now i s =
     (case filter (\<lambda>t. t_id t = i) (transactions s) of
        [] \<Rightarrow> (Inl TransactionNotFound, s)
      | transaction # _ \<Rightarrow>
          let s1 = (if t_type transaction = TSale
                    then s\<lparr>vehicles :=
                           map (revert_sale now (t_vehicle_id transaction)) (vehicles s)\<rparr>
                    else s);
              s2 = s1\<lparr>transactions := filter (\<lambda>t. t_id t \<noteq> i) (transactions s1)\<rparr>
          in (Inr \<lparr>success = True\<rparr>, s2))"

section \<open>Expenses\<close>

record create_expense_input =
  cei_vehicle_id :: int
  cei_vendor_id :: "int option"
  cei_amount :: rat
  cei_expense_type :: expense_type
  cei_description :: string
  cei_expense_date :: "date option"

text \<open>
  \<open>vendor_id\<close> is \<open>z.number().nullable().optional()\<close>: \<open>None\<close> stands for both
  \<open>null\<close> and \<open>undefined\<close>, which the handler treats alike. The test
  \<open>if (input.vendor_id)\<close> is truthiness: it is false for \<open>null\<close>, \<open>undefined\<close>
  and the number 0, and \<open>input.vendor_id || null\<close> yields \<open>null\<close> in the same three
  cases. The inserted row refers to a vehicle that was found and to a vendor that was
  found or to none, so its foreign keys hold; its amount is subject to
  \<open>numeric(10, 2)\<close>.
\<close>

definition createExpense ::
  "date \<Rightarrow> create_expense_input \<Rightarrow> store \<Rightarrow> (error + expense) \<times> store" where
  "createExpense now input s =
     (if filter (\<lambda>v. v_id v = cei_vehicle_id input) (vehicles s) = []
      then (Inl VehicleNotFound, s)
      else if truthy_number (cei_vendor_id input) \<and>
              filter (\<lambda>vd. Some (vd_id vd) = cei_vendor_id input) (vendors s) = []
      then (Inl VendorNotFound, s)
      else
        (case numeric_10_2 (cei_amount input) of
           None \<Rightarrow> (Inl NumericFieldOverflow, s)
         | Some amount \<Rightarrow>
             let expense =
                   \<lparr>e_id = next_expense_id s,
                    e_vehicle_id = cei_vehicle_id input,
                    e_vendor_id =
                      (if truthy_number (cei_vendor_id input) then cei_vendor_id input
                       else None),
                    e_amount = amount,
                    e_expense_type = cei_expense_type input,
                    e_description = cei_description input,
                    e_expense_date =
                      (case cei_expense_date input of Some d \<Rightarrow> d | None \<Rightarrow> now),
                    e_created_at = now\<rparr>
             in (Inr expense,
                 s\<lparr>expenses := expenses s @ [expense],
                   next_expense_id := next_expense_id s + 1\<rparr>)))"

text \<open>
  In \<open>UpdateExpenseInput\<close> every field but \<open>id\<close> is optional, and \<open>vendor_id\<close> is
  nullable as well: the outer \<open>option\<close> is \<open>undefined\<close> (field absent), the inner one
  \<open>null\<close>. A field is written when it is not \<open>undefined\<close>.
\<close>

record update_expense_input =
  uei_id :: int
  uei_vendor_id :: "int option option"
  uei_amount :: "rat option"
  uei_expense_type :: "expense_type option"
  uei_description :: "string option"
  uei_expense_date :: "date option"

text \<open>
  The columns \<open>updateValues\<close> sets on a row with the id: each field of the input that
  is not \<open>undefined\<close>, the amount as the database has rounded it.
\<close>

definition apply_expense_update ::
  "update_expense_input \<Rightarrow> money option \<Rightarrow> expense \<Rightarrow> expense" where
  "apply_expense_update input amount e =
     (if e_id e = uei_id input
      then e\<lparr>e_vendor_id := (case uei_vendor_id input of None \<Rightarrow> e_vendor_id e | Some x \<Rightarrow> x),
             e_amount := (case amount of None \<Rightarrow> e_amount e | Some x \<Rightarrow> x),
             e_expense_type :=
               (case uei_expense_type input of None \<Rightarrow> e_expense_type e | Some x \<Rightarrow> x),
             e_description :=
               (case uei_description input of None \<Rightarrow> e_description e | Some x \<Rightarrow> x),
             e_expense_date :=
               (case uei_expense_date input of None \<Rightarrow> e_expense_date e | Some x \<Rightarrow> x)\<rparr>
      else e)"

definition no_values_to_set :: "update_expense_input \<Rightarrow> bool" where
  "no_values_to_set input =
     (uei_vendor_id input = None \<and> uei_amount input = None \<and>
      uei_expense_type input = None \<and> uei_description input = None \<and>
      uei_expense_date input = None)"

text \<open>
  The value of the \<open>amount\<close> column of the update: none when the field is absent, a
  failure when it does not fit \<open>numeric(10, 2)\<close>.
\<close>

definition update_amount :: "rat option \<Rightarrow> error + money option" where
  "update_amount x =
     (case x of
        None \<Rightarrow> Inr None
      | Some a \<Rightarrow>
          (case numeric_10_2 a of None \<Rightarrow> Inl NumericFieldOverflow | Some c \<Rightarrow> Inr (Some c)))"

text \<open>
  The foreign key of \<open>expenses.vendor_id\<close>, for the \<open>vendor_id\<close> an update sets: a
  number must be the id of a vendor row, \<open>null\<close> is always allowed.
\<close>

definition vendor_reference_ok :: "int option option \<Rightarrow> store \<Rightarrow> bool" where
  "vendor_reference_ok x s =
     (case x of
        Some (Some i) \<Rightarrow> filter (\<lambda>vd. vd_id vd = i) (vendors s) \<noteq> []
      | _ \<Rightarrow> True)"

text \<open>
  \<open>updateExpense\<close>: the expense is looked up, then the vendor when \<open>vendor_id\<close> is
  truthy. \<open>set(updateValues)\<close> throws \<open>No values to set\<close> when no field was given.
  The \<open>UPDATE\<close> itself fails when the amount does not fit its column, and when the
  \<open>vendor_id\<close> it sets is a number that is no vendor's id: that is the case of
  \<open>vendor_id\<close> 0, which the truthiness test has let through. A failed call has
  written nothing. The handler returns the first updated row.
\<close>

definition updateExpense ::
  "update_expense_input \<Rightarrow> store \<Rightarrow> (error + expense) \<times> store" where
  "updateExpense input s =
     (case filter (\<lambda>e. e_id e = uei_id input) (expenses s) of
        [] \<Rightarrow> (Inl ExpenseNotFound, s)
      | existing # _ \<Rightarrow>
          if truthy_number (case uei_vendor_id input of None \<Rightarrow> None | Some x \<Rightarrow> x) \<and>
             filter (\<lambda>vd. Some (Some (vd_id vd)) = uei_vendor_id input) (vendors s) = []
          then (Inl VendorNotFound, s)
          else if no_values_to_set input
          then (Inl NoValuesToSet, s)
          else
            (case update_amount (uei_amount input) of
               Inl e \<Rightarrow> (Inl e, s)
             | Inr amount \<Rightarrow>
                 if vendor_reference_ok (uei_vendor_id input) s
                 then (Inr (apply_expense_update input amount existing),
                       s\<lparr>expenses := map (apply_expense_update input amount) (expenses s)\<rparr>)
                 else (Inl ForeignKeyViolation, s)))"

definition getExpenseById :: "int \<Rightarrow> store \<Rightarrow> expense option" where
  "getExpenseById i s =
     (case filter (\<lambda>e. e_id e = i) (expenses s) of
        [] \<Rightarrow> None
      | expense # _ \<Rightarrow> Some expense)"

text \<open>
  \<open>deleteExpense\<close> deletes the rows with the id and reports whether any row was
  returned by the delete; it never throws for a missing id.
\<close>

definition deleteExpense :: "int \<Rightarrow> store \<Rightarrow> (error + delete_result) \<times> store" where
  "deleteExpense i s =
     (let result = filter (\<lambda>e. e_id e = i) (expenses s)
      in (Inr \<lparr>success = (length result > 0)\<rparr>,
          s\<lparr>expenses := filter (\<lambda>e. e_id e \<noteq> i) (expenses s)\<rparr>))"

section \<open>Vendors\<close>

definition getVendorById :: "int \<Rightarrow> store \<Rightarrow> vendor option" where
  "getVendorById i s =
     (case filter (\<lambda>vd. vd_id vd = i) (vendors s) of
        [] \<Rightarrow> None
      | vd # _ \<Rightarrow> Some vd)"

text \<open>
  \<open>deleteVendor\<close>: existence first, then \<open>count(*)\<close> of the expenses whose
  \<open>vendor_id\<close> equals the id (a \<open>null\<close> vendor_id equals nothing), then the delete.
\<close>

definition deleteVendor :: "int \<Rightarrow> store \<Rightarrow> (error + delete_result) \<times> store" where
  "deleteVendor i s =
     (if filter (\<lambda>vd. vd_id vd = i) (vendors s) = []
      then (Inl VendorNotFound, s)
      else if length (filter (\<lambda>e. e_vendor_id e = Some i) (expenses s)) > 0
      then (Inl VendorHasExpenses, s)
      else (Inr \<lparr>success = True\<rparr>,
            s\<lparr>vendors := filter (\<lambda>vd. vd_id vd \<noteq> i) (vendors s)\<rparr>))"

section \<open>Vehicles\<close>

definition getVehicleById :: "int \<Rightarrow> store \<Rightarrow> vehicle option" where
  "getVehicleById i s =
     (case filter (\<lambda>v. v_id v = i) (vehicles s) of
        [] \<Rightarrow> None
      | vehicle # _ \<Rightarrow> Some vehicle)"

definition deleteVehicle :: "int \<Rightarrow> store \<Rightarrow> (error + delete_result) \<times> store" where
  "deleteVehicle i s =
     (if filter (\<lambda>v. v_id v = i) (vehicles s) = []
      then (Inl VehicleNotFound, s)
      else (Inr \<lparr>success = True\<rparr>,
            s\<lparr>expenses := filter (\<lambda>e. e_vehicle_id e \<noteq> i) (expenses s),
              transactions := filter (\<lambda>t. t_vehicle_id t \<noteq> i) (transactions s),
              vehicles := filter (\<lambda>v. v_id v \<noteq> i) (vehicles s)\<rparr>))"

section \<open>Reports\<close>

record financial_report_filters =
  f_start_date :: "date option"
  f_end_date :: "date option"
  f_status :: "vehicle_status option"
  f_make :: "string option"
  f_model :: "string option"

text \<open>
  The conditions both the profit/loss report and the expense CSV export push, in the
  source's order; all of them are on the vehicle row.
\<close>

definition vehicle_conditions :: "financial_report_filters option \<Rightarrow> (vehicle \<Rightarrow> bool) list" where
  "vehicle_conditions filters =
     (case filters of
        None \<Rightarrow> []
      | Some f \<Rightarrow>
          (case f_start_date f of
             Some d \<Rightarrow> [\<lambda>v. d \<le> v_acquisition_date v] | None \<Rightarrow> []) @
          (case f_end_date f of
             Some d \<Rightarrow> [\<lambda>v. v_acquisition_date v \<le> d] | None \<Rightarrow> []) @
          (case f_status f of
             Some st \<Rightarrow> [\<lambda>v. v_status v = st] | None \<Rightarrow> []) @
          (if truthy_string (f_make f) then [\<lambda>v. Some (v_make v) = f_make f] else []) @
          (if truthy_string (f_model f) then [\<lambda>v. Some (v_model v) = f_model f] else []))"

text \<open>
  \<open>COALESCE(SUM(expenses.amount), 0)\<close> of the left join grouped by the vehicle's
  primary key: the sum over the expense rows of that vehicle, 0 when there is none.
\<close>

definition total_expenses_of :: "store \<Rightarrow> int \<Rightarrow> money" where
  "total_expenses_of s vid =
     sum_list (map e_amount (filter (\<lambda>e. e_vehicle_id e = vid) (expenses s)))"

record profit_loss =
  pl_vehicle_id :: int
  pl_acquisition_cost :: money
  pl_total_expenses :: money
  pl_total_cost :: money
  pl_sale_price :: "money option"
  pl_profit_loss :: "money option"
  pl_is_sold :: bool

text \<open>
  The mapping of one result row, the same code in \<open>getProfitLossReport\<close> and
  \<open>getVehicleProfitLoss\<close>. \<open>result.sale_price\<close> is the column's text or \<open>null\<close>, so
  its truthiness is "not null"; \<open>salePrice\<close> is a number, so
  \<open>salePrice ? salePrice - totalCost : null\<close> is \<open>null\<close> for 0 as well.
\<close>

definition profit_loss_row :: "store \<Rightarrow> vehicle \<Rightarrow> profit_loss" where
  "profit_loss_row s v =
     (let acquisitionCost = v_acquisition_cost v;
          totalExpenses = total_expenses_of s (v_id v);
          totalCost = acquisitionCost + totalExpenses;
          salePrice = v_sale_price v;
          profitLoss = (if truthy_number salePrice
                        then map_option (\<lambda>p. p - totalCost) salePrice else None);
          isSold = (salePrice \<noteq> None)
      in \<lparr>pl_vehicle_id = v_id v,
          pl_acquisition_cost = acquisitionCost,
          pl_total_expenses = totalExpenses,
          pl_total_cost = totalCost,
          pl_sale_price = salePrice,
          pl_profit_loss = profitLoss,
          pl_is_sold = isSold\<rparr>)"

text \<open>
  The query returns one group per vehicle row that passes the conditions (the grouping
  key contains the primary key). SQL leaves the order of the rows open; the model
  keeps the table's order.
\<close>

definition getProfitLossReport ::
  "financial_report_filters option \<Rightarrow> store \<Rightarrow> profit_loss list" where
  "getProfitLossReport filters s =
     (let conditions = vehicle_conditions filters;
          results = filter (\<lambda>v. list_all (\<lambda>c. c v) conditions) (vehicles s)
      in map (profit_loss_row s) results)"

definition getVehicleProfitLoss :: "int \<Rightarrow> store \<Rightarrow> profit_loss option" where
  "getVehicleProfitLoss i s =
     (case filter (\<lambda>v. v_id v = i) (vehicles s) of
        [] \<Rightarrow> None
      | vehicleData # _ \<Rightarrow> Some (profit_loss_row s vehicleData))"

subsection \<open>Inventory aging\<close>

definition ms_per_day :: int where
  "ms_per_day = 86400000"

text \<open>
  \<open>EXTRACT(DAY FROM NOW() - acquisition_date)\<close>: the difference of two timestamps is an
  interval of days and a time of day of the same sign, so its day field is the
  difference divided by the length of a day, rounded towards zero.
\<close>

definition extract_day :: "int \<Rightarrow> int" where
  "extract_day diff =
     (if 0 \<le> diff then diff div ms_per_day else - ((- diff) div ms_per_day))"

record inventory_aging =
  ia_vehicle_id :: int
  ia_vin :: string
  ia_make :: string
  ia_model :: string
  ia_year :: int
  ia_status :: vehicle_status
  ia_acquisition_date :: date
  ia_days_in_inventory :: int
  ia_total_cost :: money

definition inventory_aging_row :: "date \<Rightarrow> store \<Rightarrow> vehicle \<Rightarrow> inventory_aging" where
  "inventory_aging_row now s v =
     \<lparr>ia_vehicle_id = v_id v,
      ia_vin = v_vin v,
      ia_make = v_make v,
      ia_model = v_model v,
      ia_year = v_year v,
      ia_status = v_status v,
      ia_acquisition_date = v_acquisition_date v,
      ia_days_in_inventory = extract_day (now - v_acquisition_date v),
      ia_total_cost = v_acquisition_cost v + total_expenses_of s (v_id v)\<rparr>"

definition getInventoryAging :: "date \<Rightarrow> store \<Rightarrow> inventory_aging list" where
  "getInventoryAging now s =
     map (inventory_aging_row now s) (filter (\<lambda>v. v_status v = Listed) (vehicles s))"

subsection \<open>Expense breakdown\<close>

record expense_breakdown =
  eb_expense_type :: expense_type
  eb_total_amount :: money
  eb_count :: nat

text \<open>
  \<open>GROUP BY expense_type\<close> with \<open>SUM(amount)\<close> and \<open>count(id)\<close>: one row per type
  that occurs among the selected expenses. The order of the groups is open in SQL; the
  model lists each type at its last occurrence.
\<close>

definition group_by_expense_type :: "expense list \<Rightarrow> expense_breakdown list" where
  "group_by_expense_type es =
     map (\<lambda>ty. \<lparr>eb_expense_type = ty,
                eb_total_amount =
                  sum_list (map e_amount (filter (\<lambda>e. e_expense_type e = ty) es)),
                eb_count = length (filter (\<lambda>e. e_expense_type e = ty) es)\<rparr>)
         (remdups (map e_expense_type es))"

text \<open>The inner join of expenses and vehicles on \<open>expenses.vehicle_id = vehicles.id\<close>.\<close>

definition expense_vehicle_join :: "store \<Rightarrow> (expense \<times> vehicle) list" where
  "expense_vehicle_join s =
     concat (map (\<lambda>e. map (Pair e) (filter (\<lambda>v. v_id v = e_vehicle_id e) (vehicles s)))
                 (expenses s))"

text \<open>
  \<open>getExpenseBreakdown\<close> joins only for a status, make or model filter. Its date
  conditions are on \<open>expenses.expense_date\<close>, the other ones on the vehicle; without
  the join only date conditions can be in the list.
\<close>

definition expense_date_conditions ::
  "financial_report_filters option \<Rightarrow> (expense \<Rightarrow> bool) list" where
  "expense_date_conditions filters =
     (case filters of
        None \<Rightarrow> []
      | Some f \<Rightarrow>
          (case f_start_date f of
             Some d \<Rightarrow> [\<lambda>e. d \<le> e_expense_date e] | None \<Rightarrow> []) @
          (case f_end_date f of
             Some d \<Rightarrow> [\<lambda>e. e_expense_date e \<le> d] | None \<Rightarrow> []))"

definition vehicle_attribute_conditions ::
  "financial_report_filters option \<Rightarrow> (vehicle \<Rightarrow> bool) list" where
  "vehicle_attribute_conditions filters =
     (case filters of
        None \<Rightarrow> []
      | Some f \<Rightarrow>
          (case f_status f of
             Some st \<Rightarrow> [\<lambda>v. v_status v = st] | None \<Rightarrow> []) @
          (if truthy_string (f_make f) then [\<lambda>v. Some (v_make v) = f_make f] else []) @
          (if truthy_string (f_model f) then [\<lambda>v. Some (v_model v) = f_model f] else []))"

definition getExpenseBreakdown ::
  "financial_report_filters option \<Rightarrow> store \<Rightarrow> expense_breakdown list" where
  "getExpenseBreakdown filters s =
     (let needsJoin =
            (case filters of
               None \<Rightarrow> False
             | Some f \<Rightarrow>
                 truthy_object (f_status f) \<or> truthy_string (f_make f) \<or>
                 truthy_string (f_model f));
          results =
            (if needsJoin
             then map fst
                    (filter (\<lambda>(e, v). list_all (\<lambda>c. c e) (expense_date_conditions filters) \<and>
                                       list_all (\<lambda>c. c v) (vehicle_attribute_conditions filters))
                            (expense_vehicle_join s))
             else filter (\<lambda>e. list_all (\<lambda>c. c e) (expense_date_conditions filters))
                         (expenses s))
      in group_by_expense_type results)"

subsection \<open>CSV export of the expense breakdown\<close>

definition digit_char :: "nat \<Rightarrow> char" where
  "digit_char d = ''0123456789'' ! (d mod 10)"

fun string_of_nat :: "nat \<Rightarrow> string" where
  "string_of_nat n =
     (if n < 10 then [digit_char n]
      else string_of_nat (n div 10) @ [digit_char (n mod 10)])"

declare string_of_nat.simps [simp del]

text \<open>\<open>toFixed(2)\<close> of an amount of cents: sign, units, a point and two digits.\<close>

definition toFixed2 :: "money \<Rightarrow> string" where
  "toFixed2 c =
     (if c < 0 then ''-'' else []) @ string_of_nat (nat \<bar>c\<bar> div 100) @ ''.'' @
     [digit_char (nat \<bar>c\<bar> mod 100 div 10), digit_char (nat \<bar>c\<bar> mod 10)]"

fun expense_type_name :: "expense_type \<Rightarrow> string" where
  "expense_type_name ExpAcquisition = ''acquisition''"
| "expense_type_name ExpReconditioning = ''reconditioning''"
| "expense_type_name ExpMarketing = ''marketing''"
| "expense_type_name ExpTransport = ''transport''"
| "expense_type_name ExpStorage = ''storage''"
| "expense_type_name ExpInspection = ''inspection''"
| "expense_type_name ExpRepairs = ''repairs''"
| "expense_type_name ExpDetailing = ''detailing''"
| "expense_type_name ExpOther = ''other''"

definition expense_csv_header :: string where
  "expense_csv_header = ''Expense Type,Total Amount,Count\<newline>''"

text \<open>One row of the export: the three fields joined by commas, and a newline.\<close>

definition expense_csv_row :: "expense_breakdown \<Rightarrow> string" where
  "expense_csv_row item =
     [CHR 0x22] @ expense_type_name (eb_expense_type item) @ [CHR 0x22] @ '','' @
     toFixed2 (eb_total_amount item) @ '','' @ string_of_nat (eb_count item) @ ''\<newline>''"

text \<open>
  \<open>exportExpenseBreakdownToCSV\<close> does not call \<open>getExpenseBreakdown\<close>: it builds its
  own query. With any truthy filter it joins the vehicles and applies all five
  conditions to the vehicle row, the date ones to \<open>vehicles.acquisition_date\<close>;
  without one it groups all expenses.
\<close>

definition exportExpenseBreakdownToCSV ::
  "financial_report_filters option \<Rightarrow> store \<Rightarrow> string" where
  "exportExpenseBreakdownToCSV filters s =
     (if (case filters of
            None \<Rightarrow> False
          | Some f \<Rightarrow>
              truthy_object (f_start_date f) \<or> truthy_object (f_end_date f) \<or>
              truthy_object (f_status f) \<or>
              truthy_string (f_make f) \<or> truthy_string (f_model f))
      then
        let conditions = vehicle_conditions filters;
            results =
              group_by_expense_type
                (map fst (filter (\<lambda>(e, v). list_all (\<lambda>c. c v) conditions)
                                 (expense_vehicle_join s)))
        in expense_csv_header @ concat (map expense_csv_row results)
      else
        let results = group_by_expense_type (expenses s)
        in expense_csv_header @ concat (map expense_csv_row results))"

text \<open>
  The formatting layer the specification describes for the export, over the records
  of \<open>getExpenseBreakdown\<close>: the header, then one row per record.
\<close>

definition formatExpenseBreakdown :: "expense_breakdown list \<Rightarrow> string" where
  "formatExpenseBreakdown records = expense_csv_header @ concat (map expense_csv_row records)"

section \<open>Dashboard\<close>

text \<open>
  The calendar of \<open>Date\<close>, with the server's time zone taken to be UTC: the civil date
  of a day number (days since 1970-01-01) in the proleptic Gregorian calendar, and
  back. Months count from 1 here; \<open>getMonth\<close> and the \<open>Date\<close> constructor count
  them from 0.
\<close>

definition civil_from_days :: "int \<Rightarrow> int \<times> int \<times> int" where
  "civil_from_days z0 =
     (let z = z0 + 719468;
          era = z div 146097;
          doe = z mod 146097;
          yoe = (doe - doe div 1460 + doe div 36524 - doe div 146096) div 365;
          doy = doe - (365 * yoe + yoe div 4 - yoe div 100);
          mp = (5 * doy + 2) div 153;
          d = doy - (153 * mp + 2) div 5 + 1;
          m = (if mp < 10 then mp + 3 else mp - 9);
          y = yoe + era * 400 + (if m \<le> 2 then 1 else 0)
      in (y, m, d))"

definition days_from_civil :: "int \<Rightarrow> int \<Rightarrow> int \<Rightarrow> int" where
  "days_from_civil y0 m d =
     (let y = (if m \<le> 2 then y0 - 1 else y0);
          era = y div 400;
          yoe = y mod 400;
          doy = (153 * (if m > 2 then m - 3 else m + 9) + 2) div 5 + d - 1;
          doe = yoe * 365 + yoe div 4 - yoe div 100 + doy
      in era * 146097 + doe - 719468)"

definition getFullYear :: "date \<Rightarrow> int" where
  "getFullYear t = fst (civil_from_days (t div ms_per_day))"

definition getMonth :: "date \<Rightarrow> int" where
  "getMonth t = fst (snd (civil_from_days (t div ms_per_day))) - 1"

text \<open>\<open>new Date(year, monthIndex, day)\<close>, for a month index from 0 to 11: midnight of that day.\<close>

definition new_Date :: "int \<Rightarrow> int \<Rightarrow> int \<Rightarrow> date" where
  "new_Date year monthIndex day = days_from_civil year (monthIndex + 1) day * ms_per_day"

definition start_of_month :: "date \<Rightarrow> date" where
  "start_of_month now = new_Date (getFullYear now) (getMonth now) 1"

record dashboard_kpi =
  kpi_total_inventory :: nat
  kpi_total_inventory_value :: money
  kpi_vehicles_in_reconditioning :: nat
  kpi_vehicles_listed :: nat
  kpi_vehicles_sold_this_month :: nat
  kpi_total_profit_this_month :: money
  kpi_avg_days_to_sale :: "rat option"

text \<open>
  The rows of \<open>WHERE status = 'sold' AND sale_date >= startOfMonth\<close>: a \<open>null\<close>
  sale_date compares as unknown and drops the row. There is no upper bound.
\<close>

definition sold_since :: "date \<Rightarrow> store \<Rightarrow> vehicle list" where
  "sold_since start s =
     filter (\<lambda>v. v_status v = Sold \<and>
                 (case v_sale_date v of None \<Rightarrow> False | Some d \<Rightarrow> start \<le> d))
            (vehicles s)"

text \<open>
  \<open>AVG(EXTRACT(DAY FROM (sale_date - acquisition_date)))\<close> over the sold vehicles:
  rows with a \<open>null\<close> sale_date contribute nothing, and the average of no value is
  \<open>null\<close>.
\<close>

definition avg_days :: "vehicle list \<Rightarrow> rat option" where
  "avg_days vs =
     (let ds = concat (map (\<lambda>v. case v_sale_date v of
                                   None \<Rightarrow> []
                                 | Some d \<Rightarrow> [extract_day (d - v_acquisition_date v)]) vs)
      in if ds = [] then None
         else Some (of_int (sum_list ds) / of_nat (length ds)))"

definition getDashboardKpis :: "date \<Rightarrow> store \<Rightarrow> dashboard_kpi" where
  "getDashboardKpis now s =
     (let startOfMonth = start_of_month now;
          in_inventory = (\<lambda>v. v_status v \<noteq> Sold \<and> v_status v \<noteq> Archived);
          total_inventory = length (filter in_inventory (vehicles s));
          acquisitionValue = sum_list (map v_acquisition_cost (filter in_inventory (vehicles s)));
          expensesValue =
            sum_list (map (\<lambda>(e, v). e_amount e)
                          (filter (\<lambda>(e, v). in_inventory v) (expense_vehicle_join s)));
          total_inventory_value = acquisitionValue + expensesValue;
          vehicles_in_reconditioning =
            length (filter (\<lambda>v. v_status v = Reconditioning) (vehicles s));
          vehicles_listed = length (filter (\<lambda>v. v_status v = Listed) (vehicles s));
          vehicles_sold_this_month = length (sold_since startOfMonth s);
          soldVehiclesThisMonth = sold_since startOfMonth s;
          total_profit_this_month =
            fold (\<lambda>vehicle total.
                    case v_sale_price vehicle of
                      None \<Rightarrow> total
                    | Some salePrice \<Rightarrow>
                        total + (salePrice - v_acquisition_cost vehicle
                                 - total_expenses_of s (v_id vehicle)))
                 soldVehiclesThisMonth 0;
          avg_days_to_sale = avg_days (filter (\<lambda>v. v_status v = Sold) (vehicles s))
      in \<lparr>kpi_total_inventory = total_inventory,
          kpi_total_inventory_value = total_inventory_value,
          kpi_vehicles_in_reconditioning = vehicles_in_reconditioning,
          kpi_vehicles_listed = vehicles_listed,
          kpi_vehicles_sold_this_month = vehicles_sold_this_month,
          kpi_total_profit_this_month = total_profit_this_month,
          kpi_avg_days_to_sale = avg_days_to_sale\<rparr>)"

text \<open>
  The count the specification words for \<open>vehicles_sold_this_month\<close>: sold vehicles
  whose sale_date lies in the closed interval from the first day of the current month
  to \<open>now\<close>.
\<close>

definition sold_this_month_within :: "date \<Rightarrow> store \<Rightarrow> nat" where
  "sold_this_month_within now s =
     length (filter (\<lambda>v. v_status v = Sold \<and>
                         (case v_sale_date v of
                            None \<Rightarrow> False
                          | Some d \<Rightarrow> start_of_month now \<le> d \<and> d \<le> now))
                    (vehicles s))"

section \<open>Example stores\<close>

text \<open>
  The vehicle and the sale of the transaction tests: a listed Toyota acquired on
  2024-01-01 for 25000.00, sold on 2024-01-20 for 28000.00.
\<close>

definition test_vehicle :: vehicle where
  "test_vehicle =
     \<lparr>v_id = 1, v_vin = ''TEST123456789'', v_make = ''Toyota'', v_model = ''Camry'',
      v_year = 2020, v_color = ''Blue'', v_mileage = 50000, v_status = Listed,
      v_acquisition_date = 1704067200000, v_acquisition_cost = 2500000,
      v_listing_price = None, v_sale_price = None, v_sale_date = None, v_notes = None,
      v_created_at = 1704067200000, v_updated_at = 1704067200000\<rparr>"

definition test_store :: store where
  "test_store =
     \<lparr>vehicles = [test_vehicle], vendors = [], expenses = [], transactions = [],
      next_expense_id = 1, next_transaction_id = 1\<rparr>"

definition test_sale_input :: create_transaction_input where
  "test_sale_input =
     \<lparr>cti_vehicle_id = 1, cti_type = TSale, cti_amount = 28000,
      cti_description = ''Vehicle sold to customer'',
      cti_transaction_date = Some 1705708800000\<rparr>"

text \<open>
  A vehicle with two sale transactions whose status was set to reconditioning
  afterwards, as \<open>updateVehicle\<close> allows.
\<close>

definition resold_store :: store where
  "resold_store =
     \<lparr>vehicles =
        [test_vehicle\<lparr>v_status := Reconditioning, v_sale_price := Some 2900000,
                      v_sale_date := Some 1706745600000\<rparr>],
      vendors = [], expenses = [],
      transactions =
        [\<lparr>t_id = 1, t_vehicle_id = 1, t_type = TSale, t_amount = 2800000,
          t_description = ''First sale'', t_transaction_date = 1705708800000,
          t_created_at = 1705708800000\<rparr>,
         \<lparr>t_id = 2, t_vehicle_id = 1, t_type = TSale, t_amount = 2900000,
          t_description = ''Second sale'', t_transaction_date = 1706745600000,
          t_created_at = 1706745600000\<rparr>],
      next_expense_id = 1, next_transaction_id = 3\<rparr>"

text \<open>
  A small inventory: a listed Toyota acquired on 2024-01-01 for 15000.00 with a repair
  of 2000.00 and a detailing of 500.00 from the same vendor, and a sold Honda with a
  marketing expense of 800.00.
\<close>

definition listed_vehicle :: vehicle where
  "listed_vehicle =
     \<lparr>v_id = 1, v_vin = ''VIN001'', v_make = ''Toyota'', v_model = ''Camry'',
      v_year = 2020, v_color = ''Blue'', v_mileage = 50000, v_status = Listed,
      v_acquisition_date = 1704067200000, v_acquisition_cost = 1500000,
      v_listing_price = None, v_sale_price = None, v_sale_date = None, v_notes = None,
      v_created_at = 1704067200000, v_updated_at = 1704067200000\<rparr>"

definition sold_vehicle :: vehicle where
  "sold_vehicle =
     \<lparr>v_id = 2, v_vin = ''VIN002'', v_make = ''Honda'', v_model = ''Civic'',
      v_year = 2019, v_color = ''Red'', v_mileage = 30000, v_status = Sold,
      v_acquisition_date = 1701388800000, v_acquisition_cost = 1200000,
      v_listing_price = None, v_sale_price = Some 1400000,
      v_sale_date = Some 1707523200000, v_notes = None,
      v_created_at = 1701388800000, v_updated_at = 1707523200000\<rparr>"

definition test_vendor :: vendor where
  "test_vendor =
     \<lparr>vd_id = 1, vd_name = ''Test Vendor'', vd_contact_info = Some ''test@vendor.com'',
      vd_created_at = 1704067200000\<rparr>"

definition garage_store :: store where
  "garage_store =
     \<lparr>vehicles = [listed_vehicle, sold_vehicle],
      vendors = [test_vendor],
      expenses =
        [\<lparr>e_id = 1, e_vehicle_id = 1, e_vendor_id = Some 1, e_amount = 200000,
          e_expense_type = ExpRepairs, e_description = ''Engine repair'',
          e_expense_date = 1705276800000, e_created_at = 1705276800000\<rparr>,
         \<lparr>e_id = 2, e_vehicle_id = 1, e_vendor_id = Some 1, e_amount = 50000,
          e_expense_type = ExpDetailing, e_description = ''Interior cleaning'',
          e_expense_date = 1704412800000, e_created_at = 1704412800000\<rparr>,
         \<lparr>e_id = 3, e_vehicle_id = 2, e_vendor_id = None, e_amount = 80000,
          e_expense_type = ExpMarketing, e_description = ''Advertisement'',
          e_expense_date = 1705708800000, e_created_at = 1705708800000\<rparr>],
      transactions = [],
      next_expense_id = 4, next_transaction_id = 1\<rparr>"

text \<open>An expense input whose vendor_id is the number 0, which no vendor row has.\<close>

definition zero_vendor_input :: create_expense_input where
  "zero_vendor_input =
     \<lparr>cei_vehicle_id = 1, cei_vendor_id = Some 0, cei_amount = 100,
      cei_expense_type = ExpOther, cei_description = ''Test expense'',
      cei_expense_date = Some 1705276800000\<rparr>"

text \<open>
  A sale for the amount 0, a sale dated five days after the call, and a sale for
  100000000.00, the least amount that \<open>numeric(10, 2)\<close> refuses.
\<close>

definition overflow_sale_input :: create_transaction_input where
  "overflow_sale_input =
     \<lparr>cti_vehicle_id = 1, cti_type = TSale, cti_amount = 100000000,
      cti_description = ''Vehicle sold to customer'',
      cti_transaction_date = Some 1705708800000\<rparr>"

definition zero_sale_input :: create_transaction_input where
  "zero_sale_input =
     \<lparr>cti_vehicle_id = 1, cti_type = TSale, cti_amount = 0,
      cti_description = ''Given away'', cti_transaction_date = Some 1705708800000\<rparr>"

definition future_sale_input :: create_transaction_input where
  "future_sale_input =
     \<lparr>cti_vehicle_id = 1, cti_type = TSale, cti_amount = 28000,
      cti_description = ''Sale agreed for next week'',
      cti_transaction_date = Some 1706140800000\<rparr>"

text \<open>A report filter with only a start date, 2024-01-10.\<close>

definition start_date_filter :: financial_report_filters where
  "start_date_filter =
     \<lparr>f_start_date = Some 1704844800000, f_end_date = None, f_status = None,
      f_make = None, f_model = None\<rparr>"

section \<open>Amounts written to a numeric(10, 2) column\<close>

lemma round_half_away_of_int: "round_half_away (of_int c) = c"
proof (cases "0 \<le> c")
  case True
  have "\<lfloor>(of_int c :: rat) + 1 / 2\<rfloor> = c" by linarith
  with True show ?thesis by (simp add: round_half_away_def)
next
  case False
  have "\<lfloor>- (of_int c :: rat) + 1 / 2\<rfloor> = - c" by linarith
  with False show ?thesis by (simp add: round_half_away_def)
qed

text \<open>An amount of whole cents within the range is stored as it is.\<close>

lemma numeric_10_2_cents:
  "\<bar>c\<bar> < 10000000000 \<Longrightarrow> numeric_10_2 (of_int c / 100) = Some c"
  by (simp add: numeric_10_2_def round_half_away_of_int)

text \<open>The stored amount is within half a cent of the input.\<close>

lemma numeric_10_2_rounds:
  assumes "numeric_10_2 x = Some c"
  shows "\<bar>of_int c - x * 100\<bar> \<le> 1 / 2" and "\<bar>c\<bar> < 10000000000"
proof -
  have c: "c = round_half_away (x * 100)" and r: "\<bar>c\<bar> < 10000000000"
    using assms by (auto simp: numeric_10_2_def Let_def split: if_splits)
  show "\<bar>c\<bar> < 10000000000" by (rule r)
  show "\<bar>of_int c - x * 100\<bar> \<le> 1 / 2"
  proof (cases "0 \<le> x * 100")
    case True
    then have "c = \<lfloor>x * 100 + 1 / 2\<rfloor>" by (simp add: c round_half_away_def)
    then show ?thesis by linarith
  next
    case False
    then have "c = - \<lfloor>- (x * 100) + 1 / 2\<rfloor>" by (simp add: c round_half_away_def)
    then show ?thesis by linarith
  qed
qed

lemma numeric_10_2_examples:
  "numeric_10_2 0 = Some 0"
  "numeric_10_2 100 = Some 10000"
  "numeric_10_2 28000 = Some 2800000"
  "numeric_10_2 100000000 = None"
  by code_simp+

section \<open>Sale transactions and the vehicle they sell\<close>

lemma filter_id_fresh:
  "i \<notin> set (map t_id ts) \<Longrightarrow> filter (\<lambda>t. t_id t = i) ts = []"
  by (induction ts) auto

lemma filter_neq_append_fresh:
  "i \<notin> set (map t_id ts) \<Longrightarrow> filter (\<lambda>t. t_id t \<noteq> i) ts = ts"
  by (induction ts) auto

lemma createTransaction_ok:
  assumes "filter (\<lambda>v. v_id v = cti_vehicle_id input) (vehicles s) \<noteq> []"
      and "numeric_10_2 (cti_amount input) = Some a"
  shows "createTransaction now input s =
     (Inr \<lparr>t_id = next_transaction_id s,
                 t_vehicle_id = cti_vehicle_id input,
                 t_type = cti_type input,
                 t_amount = a,
                 t_description = cti_description input,
                 t_transaction_date =
                   (case cti_transaction_date input of Some d \<Rightarrow> d | None \<Rightarrow> now),
                 t_created_at = now\<rparr>,
      (if cti_type input = TSale
       then s\<lparr>transactions := transactions s @ [\<lparr>t_id = next_transaction_id s,
                 t_vehicle_id = cti_vehicle_id input,
                 t_type = cti_type input,
                 t_amount = a,
                 t_description = cti_description input,
                 t_transaction_date =
                   (case cti_transaction_date input of Some d \<Rightarrow> d | None \<Rightarrow> now),
                 t_created_at = now\<rparr>],
               next_transaction_id := next_transaction_id s + 1,
               vehicles := map (mark_sold now (cti_vehicle_id input) a
                      (case cti_transaction_date input of Some d \<Rightarrow> d | None \<Rightarrow> now)) (vehicles s)\<rparr>
       else s\<lparr>transactions := transactions s @ [\<lparr>t_id = next_transaction_id s,
                 t_vehicle_id = cti_vehicle_id input,
                 t_type = cti_type input,
                 t_amount = a,
                 t_description = cti_description input,
                 t_transaction_date =
                   (case cti_transaction_date input of Some d \<Rightarrow> d | None \<Rightarrow> now),
                 t_created_at = now\<rparr>],
               next_transaction_id := next_transaction_id s + 1\<rparr>))"
  using assms unfolding createTransaction_def Let_def
  by (cases "filter (\<lambda>v. v_id v = cti_vehicle_id input) (vehicles s)") simp_all

lemma createTransaction_overflow:
  assumes "cti_vehicle_id input \<in> set (map v_id (vehicles s))"
      and "numeric_10_2 (cti_amount input) = None"
  shows "createTransaction now input s = (Inl NumericFieldOverflow, s)"
proof -
  have "filter (\<lambda>v. v_id v = cti_vehicle_id input) (vehicles s) \<noteq> []"
    using assms(1) by (auto simp: filter_empty_conv)
  then show ?thesis
    using assms(2) unfolding createTransaction_def
    by (cases "filter (\<lambda>v. v_id v = cti_vehicle_id input) (vehicles s)") simp_all
qed

lemma deleteTransaction_sale:
  assumes "filter (\<lambda>t. t_id t = i) (transactions s) = tr # rest" "t_type tr = TSale"
  shows "deleteTransaction now i s =
     (Inr \<lparr>success = True\<rparr>,
      s\<lparr>vehicles := map (revert_sale now (t_vehicle_id tr)) (vehicles s),
        transactions := filter (\<lambda>t. t_id t \<noteq> i) (transactions s)\<rparr>)"
  using assms unfolding deleteTransaction_def Let_def by simp

lemma revert_sale_one:
  "v_id (revert_sale now vid w) = vid \<Longrightarrow>
     v_status (revert_sale now vid w) = Listed \<and> v_sale_price (revert_sale now vid w) = None \<and>
     v_sale_date (revert_sale now vid w) = None"
  by (cases "v_id w = vid") (simp_all add: revert_sale_def)

lemma revert_sale_all:
  "\<forall>v \<in> set (map (revert_sale now vid) vs). v_id v = vid \<longrightarrow>
     v_status v = Listed \<and> v_sale_price v = None \<and> v_sale_date v = None"
proof (intro ballI impI)
  fix v assume v: "v \<in> set (map (revert_sale now vid) vs)" and i: "v_id v = vid"
  from v obtain w where w: "v = revert_sale now vid w" by auto
  from i show "v_status v = Listed \<and> v_sale_price v = None \<and> v_sale_date v = None"
    unfolding w by (rule revert_sale_one)
qed

lemma mark_sold_one:
  "v_id (mark_sold now vid a d w) = vid \<Longrightarrow>
     v_status (mark_sold now vid a d w) = Sold \<and> v_sale_price (mark_sold now vid a d w) = Some a \<and>
     v_sale_date (mark_sold now vid a d w) = Some d"
  by (cases "v_id w = vid") (simp_all add: mark_sold_def)

lemma mark_sold_all:
  "\<forall>v \<in> set (map (mark_sold now vid a d) vs). v_id v = vid \<longrightarrow>
     v_status v = Sold \<and> v_sale_price v = Some a \<and> v_sale_date v = Some d"
proof (intro ballI impI)
  fix v assume v: "v \<in> set (map (mark_sold now vid a d) vs)" and i: "v_id v = vid"
  from v obtain w where w: "v = mark_sold now vid a d w" by auto
  from i show "v_status v = Sold \<and> v_sale_price v = Some a \<and> v_sale_date v = Some d"
    unfolding w by (rule mark_sold_one)
qed

lemma map_id_mark_sold: "map v_id (map (mark_sold now vid a d) vs) = map v_id vs"
  by (induction vs) (auto simp: mark_sold_def)

lemma map_id_revert_sale: "map v_id (map (revert_sale now vid) vs) = map v_id vs"
  by (induction vs) (auto simp: revert_sale_def)

lemma getTransactionById_Some:
  "getTransactionById i s = Some tr \<Longrightarrow>
     \<exists>rest. filter (\<lambda>t. t_id t = i) (transactions s) = tr # rest"
  by (cases "filter (\<lambda>t. t_id t = i) (transactions s)") (simp_all add: getTransactionById_def)

text \<open>
  Claim C2, as the code has it. For a vehicle that exists and an amount that fits
  \<open>numeric(10, 2)\<close>, \<open>createTransaction\<close> with type sale returns the inserted
  transaction, and every row of that vehicle then has status sold, the transaction's
  date as sale_date and as sale_price the amount as stored, \<open>a\<close>: the input rounded
  to two decimal places, which is the input itself when it has no more than two
  (\<open>numeric_10_2_cents\<close>). Deleting the transaction by its id afterwards succeeds,
  leaves the transactions table as it was before the sale, and puts the vehicle to
  status listed with sale_price and sale_date null. The id the sequence hands out is
  assumed unused, as it is for a serial key.
\<close>

theorem sale_round_trip:
  assumes vehicle: "cti_vehicle_id input \<in> set (map v_id (vehicles s))"
      and sale: "cti_type input = TSale"
      and amount: "numeric_10_2 (cti_amount input) = Some a"
      and fresh: "next_transaction_id s \<notin> set (map t_id (transactions s))"
  shows "\<exists>tr s1 s2.
           createTransaction now input s = (Inr tr, s1) \<and>
           tr \<in> set (transactions s1) \<and>
           t_vehicle_id tr = cti_vehicle_id input \<and> t_type tr = TSale \<and>
           t_amount tr = a \<and>
           t_transaction_date tr =
             (case cti_transaction_date input of Some d \<Rightarrow> d | None \<Rightarrow> now) \<and>
           map v_id (vehicles s1) = map v_id (vehicles s) \<and>
           (\<forall>v \<in> set (vehicles s1). v_id v = cti_vehicle_id input \<longrightarrow>
              v_status v = Sold \<and> v_sale_price v = Some a \<and>
              v_sale_date v = Some (t_transaction_date tr)) \<and>
           deleteTransaction now' (t_id tr) s1 = (Inr \<lparr>success = True\<rparr>, s2) \<and>
           t_id tr \<notin> set (map t_id (transactions s2)) \<and>
           transactions s2 = transactions s \<and>
           map v_id (vehicles s2) = map v_id (vehicles s) \<and>
           (\<forall>v \<in> set (vehicles s2). v_id v = cti_vehicle_id input \<longrightarrow>
              v_status v = Listed \<and> v_sale_price v = None \<and> v_sale_date v = None)"
proof -
  define d where "d = (case cti_transaction_date input of Some d \<Rightarrow> d | None \<Rightarrow> now)"
  define tr where "tr = \<lparr>t_id = next_transaction_id s,
                 t_vehicle_id = cti_vehicle_id input,
                 t_type = cti_type input,
                 t_amount = a,
                 t_description = cti_description input,
                 t_transaction_date = d,
                 t_created_at = now\<rparr>"
  define s1 where "s1 = s\<lparr>transactions := transactions s @ [tr],
               next_transaction_id := next_transaction_id s + 1,
               vehicles := map (mark_sold now (cti_vehicle_id input) a d) (vehicles s)\<rparr>"
  define s2 where "s2 = s1\<lparr>vehicles := map (revert_sale now' (t_vehicle_id tr)) (vehicles s1),
        transactions := filter (\<lambda>t. t_id t \<noteq> t_id tr) (transactions s1)\<rparr>"
  have a0: "t_id tr = next_transaction_id s" by (simp add: tr_def)
  have a1: "t_vehicle_id tr = cti_vehicle_id input" by (simp add: tr_def)
  have a2: "t_type tr = TSale" by (simp add: tr_def sale)
  have a3: "t_amount tr = a" by (simp add: tr_def)
  have a4: "t_transaction_date tr = d" by (simp add: tr_def)
  have a5: "t_transaction_date tr =
             (case cti_transaction_date input of Some d \<Rightarrow> d | None \<Rightarrow> now)"
    by (simp add: tr_def d_def)
  have v1: "vehicles s1 = map (mark_sold now (cti_vehicle_id input) a d) (vehicles s)"
    by (simp add: s1_def)
  have tr1: "transactions s1 = transactions s @ [tr]" by (simp add: s1_def)
  have v2: "vehicles s2 = map (revert_sale now' (cti_vehicle_id input)) (vehicles s1)"
    by (simp add: s2_def a1)
  have tr2: "transactions s2 = filter (\<lambda>t. t_id t \<noteq> t_id tr) (transactions s1)"
    by (simp add: s2_def)
  have ne: "filter (\<lambda>v. v_id v = cti_vehicle_id input) (vehicles s) \<noteq> []"
    using vehicle by (auto simp: filter_empty_conv)
  have c: "createTransaction now input s = (Inr tr, s1)"
    unfolding createTransaction_ok[OF ne amount] tr_def s1_def d_def using sale by simp
  have look: "filter (\<lambda>t. t_id t = t_id tr) (transactions s1) = tr # []"
    unfolding tr1 a0 using fresh by (simp add: filter_id_fresh a0)
  have dl: "deleteTransaction now' (t_id tr) s1 = (Inr \<lparr>success = True\<rparr>, s2)"
    unfolding deleteTransaction_sale[OF look a2] s2_def by simp
  have t2: "transactions s2 = transactions s"
    unfolding tr2 tr1 a0 using fresh by (simp add: filter_neq_append_fresh a0)
  have p1: "\<forall>v \<in> set (vehicles s1). v_id v = cti_vehicle_id input \<longrightarrow>
              v_status v = Sold \<and> v_sale_price v = Some a \<and>
              v_sale_date v = Some (t_transaction_date tr)"
    unfolding v1 a4 by (rule mark_sold_all)
  have p2: "\<forall>v \<in> set (vehicles s2). v_id v = cti_vehicle_id input \<longrightarrow>
              v_status v = Listed \<and> v_sale_price v = None \<and> v_sale_date v = None"
    unfolding v2 by (rule revert_sale_all)
  have i1: "map v_id (vehicles s1) = map v_id (vehicles s)"
    unfolding v1 by (rule map_id_mark_sold)
  have i2: "map v_id (vehicles s2) = map v_id (vehicles s)"
    unfolding v2 map_id_revert_sale by (rule i1)
  have m: "tr \<in> set (transactions s1)" by (simp add: tr1)
  have f: "t_id tr \<notin> set (map t_id (transactions s2))"
    unfolding t2 a0 by (rule fresh)
  show ?thesis
    by (intro exI[of _ tr] exI[of _ s1] exI[of _ s2] conjI)
       (fact c m a1 a2 a3 a5 i1 p1 dl f t2 i2 p2)+
qed

theorem sale_round_trip_witness:
  "cti_vehicle_id test_sale_input \<in> set (map v_id (vehicles test_store)) \<and>
   cti_type test_sale_input = TSale \<and>
   numeric_10_2 (cti_amount test_sale_input) = Some 2800000 \<and>
   next_transaction_id test_store \<notin> set (map t_id (transactions test_store)) \<and>
   (\<exists>tr s1 s2.
      createTransaction 1705750000000 test_sale_input test_store = (Inr tr, s1) \<and>
      t_amount tr = 2800000 \<and> t_transaction_date tr = 1705708800000 \<and>
      map v_status (vehicles s1) = [Sold] \<and>
      map v_sale_price (vehicles s1) = [Some 2800000] \<and>
      map v_sale_date (vehicles s1) = [Some 1705708800000] \<and>
      deleteTransaction 1705760000000 (t_id tr) s1 = (Inr \<lparr>success = True\<rparr>, s2) \<and>
      transactions s2 = [] \<and>
      map v_status (vehicles s2) = [Listed] \<and>
      map v_sale_price (vehicles s2) = [None] \<and>
      map v_sale_date (vehicles s2) = [None])"
proof -
  have h1: "cti_vehicle_id test_sale_input \<in> set (map v_id (vehicles test_store))"
    by (simp add: test_sale_input_def test_store_def test_vehicle_def)
  have h2: "cti_type test_sale_input = TSale"
    by (simp add: test_sale_input_def)
  have h3: "next_transaction_id test_store \<notin> set (map t_id (transactions test_store))"
    by (simp add: test_store_def)
  have h4: "numeric_10_2 (cti_amount test_sale_input) = Some 2800000"
    by (simp add: test_sale_input_def numeric_10_2_examples)
  from sale_round_trip[OF h1 h2 h4 h3, of 1705750000000 1705760000000]
  obtain tr s1 s2 where
    c: "createTransaction 1705750000000 test_sale_input test_store = (Inr tr, s1)" and
    a: "t_amount tr = 2800000" and
    dt0: "t_transaction_date tr =
           (case cti_transaction_date test_sale_input of Some d \<Rightarrow> d
            | None \<Rightarrow> 1705750000000)" and
    i1: "map v_id (vehicles s1) = map v_id (vehicles test_store)" and
    p1: "\<forall>v \<in> set (vehicles s1). v_id v = cti_vehicle_id test_sale_input \<longrightarrow>
              v_status v = Sold \<and> v_sale_price v = Some 2800000 \<and>
              v_sale_date v = Some (t_transaction_date tr)" and
    d: "deleteTransaction 1705760000000 (t_id tr) s1 = (Inr \<lparr>success = True\<rparr>, s2)" and
    t2: "transactions s2 = transactions test_store" and
    i2: "map v_id (vehicles s2) = map v_id (vehicles test_store)" and
    p2: "\<forall>v \<in> set (vehicles s2). v_id v = cti_vehicle_id test_sale_input \<longrightarrow>
              v_status v = Listed \<and> v_sale_price v = None \<and> v_sale_date v = None"
    by blast
  have dt: "t_transaction_date tr = 1705708800000"
    using dt0 by (simp add: test_sale_input_def)
  from i1 obtain w1 where w1: "vehicles s1 = [w1]" "v_id w1 = 1"
    by (auto simp: test_store_def test_vehicle_def)
  from i2 obtain w2 where w2: "vehicles s2 = [w2]" "v_id w2 = 1"
    by (auto simp: test_store_def test_vehicle_def)
  have q1: "v_status w1 = Sold \<and> v_sale_price w1 = Some 2800000 \<and> v_sale_date w1 = Some 1705708800000"
    using p1 w1 dt by (simp add: test_sale_input_def)
  have q2: "v_status w2 = Listed \<and> v_sale_price w2 = None \<and> v_sale_date w2 = None"
    using p2 w2 by (simp add: test_sale_input_def)
  have a': "t_amount tr = 2800000" by (rule a)
  have t2': "transactions s2 = []" using t2 by (simp add: test_store_def)
  have "\<exists>tr s1 s2.
      createTransaction 1705750000000 test_sale_input test_store = (Inr tr, s1) \<and>
      t_amount tr = 2800000 \<and> t_transaction_date tr = 1705708800000 \<and>
      map v_status (vehicles s1) = [Sold] \<and>
      map v_sale_price (vehicles s1) = [Some 2800000] \<and>
      map v_sale_date (vehicles s1) = [Some 1705708800000] \<and>
      deleteTransaction 1705760000000 (t_id tr) s1 = (Inr \<lparr>success = True\<rparr>, s2) \<and>
      transactions s2 = [] \<and>
      map v_status (vehicles s2) = [Listed] \<and>
      map v_sale_price (vehicles s2) = [None] \<and>
      map v_sale_date (vehicles s2) = [None]"
    using c a' dt d t2' q1 q2 w1(1) w2(1)
    by (intro exI[of _ tr] exI[of _ s1] exI[of _ s2]) simp
  with h1 h2 h3 h4 show ?thesis by (intro conjI)
qed

text \<open>
  The claim as stated is for every amount. A sale for 100000000.00 of the test vehicle
  is refused by the amount column: the call fails, no transaction is inserted and the
  vehicle stays listed with no sale_price and no sale_date.
\<close>

theorem sale_overflow_counterexample:
  "fst (createTransaction 1705750000000 overflow_sale_input test_store) =
     Inl NumericFieldOverflow \<and>
   transactions (snd (createTransaction 1705750000000 overflow_sale_input test_store)) = [] \<and>
   map v_status
     (vehicles (snd (createTransaction 1705750000000 overflow_sale_input test_store))) =
     [Listed] \<and>
   map v_sale_price
     (vehicles (snd (createTransaction 1705750000000 overflow_sale_input test_store))) =
     [None] \<and>
   map v_sale_date
     (vehicles (snd (createTransaction 1705750000000 overflow_sale_input test_store))) =
     [None]"
  by (simp add: createTransaction_def overflow_sale_input_def test_store_def
        test_vehicle_def numeric_10_2_examples)

text \<open>
  Claim C10. When the transaction found for an id is a sale, \<open>deleteTransaction\<close>
  returns success and sets every row of its vehicle to status listed with sale_price
  and sale_date null, with no condition on the vehicle's status at the time of the call
  or on the transactions that remain; the other transactions are kept. In the example
  the vehicle is in reconditioning and a second sale of it stays in the table.
\<close>

theorem delete_sale_unconditional:
  assumes found: "getTransactionById i s = Some tr"
      and sale: "t_type tr = TSale"
  shows "\<exists>s'. deleteTransaction now i s = (Inr \<lparr>success = True\<rparr>, s') \<and>
           map v_id (vehicles s') = map v_id (vehicles s) \<and>
           (\<forall>v \<in> set (vehicles s'). v_id v = t_vehicle_id tr \<longrightarrow>
              v_status v = Listed \<and> v_sale_price v = None \<and> v_sale_date v = None) \<and>
           transactions s' = filter (\<lambda>t. t_id t \<noteq> i) (transactions s)"
proof -
  define s' where "s' = s\<lparr>vehicles := map (revert_sale now (t_vehicle_id tr)) (vehicles s),
        transactions := filter (\<lambda>t. t_id t \<noteq> i) (transactions s)\<rparr>"
  from getTransactionById_Some[OF found] obtain rest
    where look: "filter (\<lambda>t. t_id t = i) (transactions s) = tr # rest" ..
  have d: "deleteTransaction now i s = (Inr \<lparr>success = True\<rparr>, s')"
    unfolding deleteTransaction_sale[OF look sale] s'_def ..
  have v: "vehicles s' = map (revert_sale now (t_vehicle_id tr)) (vehicles s)"
    by (simp add: s'_def)
  have t: "transactions s' = filter (\<lambda>t. t_id t \<noteq> i) (transactions s)"
    by (simp add: s'_def)
  have i: "map v_id (vehicles s') = map v_id (vehicles s)"
    unfolding v by (rule map_id_revert_sale)
  have p: "\<forall>v \<in> set (vehicles s'). v_id v = t_vehicle_id tr \<longrightarrow>
              v_status v = Listed \<and> v_sale_price v = None \<and> v_sale_date v = None"
    unfolding v by (rule revert_sale_all)
  show ?thesis by (intro exI[of _ s'] conjI) (fact d i p t)+
qed

theorem delete_sale_unconditional_witness:
  "getTransactionById 1 resold_store = Some (hd (transactions resold_store)) \<and>
   t_type (hd (transactions resold_store)) = TSale \<and>
   map v_status (vehicles resold_store) = [Reconditioning] \<and>
   (\<exists>s'. deleteTransaction 1707000000000 1 resold_store = (Inr \<lparr>success = True\<rparr>, s') \<and>
         map v_status (vehicles s') = [Listed] \<and>
         map v_sale_price (vehicles s') = [None] \<and>
         map v_sale_date (vehicles s') = [None] \<and>
         map t_id (transactions s') = [2] \<and>
         map t_type (transactions s') = [TSale] \<and>
         map t_vehicle_id (transactions s') = [1])"
proof -
  have h1: "getTransactionById 1 resold_store = Some (hd (transactions resold_store))"
    by (simp add: getTransactionById_def resold_store_def)
  have h2: "t_type (hd (transactions resold_store)) = TSale"
    by (simp add: resold_store_def)
  have h3: "map v_status (vehicles resold_store) = [Reconditioning]"
    by (simp add: resold_store_def test_vehicle_def)
  from delete_sale_unconditional[OF h1 h2, of 1707000000000]
  obtain s' where
    d: "deleteTransaction 1707000000000 1 resold_store = (Inr \<lparr>success = True\<rparr>, s')" and
    i: "map v_id (vehicles s') = map v_id (vehicles resold_store)" and
    p: "\<forall>v \<in> set (vehicles s'). v_id v = t_vehicle_id (hd (transactions resold_store)) \<longrightarrow>
              v_status v = Listed \<and> v_sale_price v = None \<and> v_sale_date v = None" and
    t: "transactions s' = filter (\<lambda>t. t_id t \<noteq> 1) (transactions resold_store)"
    by blast
  from i obtain w where w: "vehicles s' = [w]" "v_id w = 1"
    by (auto simp: resold_store_def test_vehicle_def)
  have q: "v_status w = Listed \<and> v_sale_price w = None \<and> v_sale_date w = None"
    using p w by (simp add: resold_store_def)
  have t': "map t_id (transactions s') = [2] \<and> map t_type (transactions s') = [TSale] \<and>
            map t_vehicle_id (transactions s') = [1]"
    unfolding t by (simp add: resold_store_def)
  have "\<exists>s'. deleteTransaction 1707000000000 1 resold_store = (Inr \<lparr>success = True\<rparr>, s') \<and>
         map v_status (vehicles s') = [Listed] \<and>
         map v_sale_price (vehicles s') = [None] \<and>
         map v_sale_date (vehicles s') = [None] \<and>
         map t_id (transactions s') = [2] \<and>
         map t_type (transactions s') = [TSale] \<and>
         map t_vehicle_id (transactions s') = [1]"
    using d q t' w(1) by (intro exI[of _ s']) simp
  with h1 h2 h3 show ?thesis by (intro conjI)
qed

section \<open>Missing ids and references\<close>

lemma filter_vehicle_id_absent:
  "i \<notin> set (map v_id vs) \<Longrightarrow> filter (\<lambda>v. v_id v = i) vs = []"
  by (induction vs) auto

lemma filter_vendor_id_absent:
  "i \<notin> set (map vd_id vs) \<Longrightarrow> filter (\<lambda>vd. vd_id vd = i) vs = []"
  by (induction vs) auto

lemma filter_expense_id_absent:
  "i \<notin> set (map e_id es) \<Longrightarrow> filter (\<lambda>e. e_id e = i) es = []"
  by (induction es) auto

lemma filter_expense_id_keep:
  "i \<notin> set (map e_id es) \<Longrightarrow> filter (\<lambda>e. e_id e \<noteq> i) es = es"
  by (induction es) auto

lemma deleteVehicle_missing:
  "i \<notin> set (map v_id (vehicles s)) \<Longrightarrow> deleteVehicle i s = (Inl VehicleNotFound, s)"
  by (simp add: deleteVehicle_def filter_vehicle_id_absent)

lemma deleteVendor_missing:
  "i \<notin> set (map vd_id (vendors s)) \<Longrightarrow> deleteVendor i s = (Inl VendorNotFound, s)"
  by (simp add: deleteVendor_def filter_vendor_id_absent)

lemma deleteTransaction_missing:
  "i \<notin> set (map t_id (transactions s)) \<Longrightarrow>
     deleteTransaction now i s = (Inl TransactionNotFound, s)"
  by (simp add: deleteTransaction_def filter_id_fresh)

lemma deleteExpense_missing:
  "i \<notin> set (map e_id (expenses s)) \<Longrightarrow>
     deleteExpense i s = (Inr \<lparr>success = False\<rparr>, s)"
  by (simp add: deleteExpense_def filter_expense_id_absent filter_expense_id_keep)

lemma lookups_missing:
  "i \<notin> set (map v_id (vehicles s)) \<Longrightarrow> getVehicleById i s = None"
  "i \<notin> set (map v_id (vehicles s)) \<Longrightarrow> getVehicleProfitLoss i s = None"
  "i \<notin> set (map vd_id (vendors s)) \<Longrightarrow> getVendorById i s = None"
  "i \<notin> set (map e_id (expenses s)) \<Longrightarrow> getExpenseById i s = None"
  "i \<notin> set (map t_id (transactions s)) \<Longrightarrow> getTransactionById i s = None"
  by (simp_all add: getVehicleById_def getVehicleProfitLoss_def getVendorById_def
        getExpenseById_def getTransactionById_def filter_vehicle_id_absent
        filter_vendor_id_absent filter_expense_id_absent filter_id_fresh)

text \<open>
  Claim C4, as the code has it. For an id that no row of the table has,
  \<open>deleteVehicle\<close>, \<open>deleteVendor\<close> and \<open>deleteTransaction\<close> fail with their not-found
  error and leave the store as it was; \<open>deleteExpense\<close> does not fail: it returns
  \<open>{success: false}\<close>, also with the store unchanged. The lookups \<open>getVehicleById\<close>,
  \<open>getVendorById\<close>, \<open>getExpenseById\<close>, \<open>getTransactionById\<close> and
  \<open>getVehicleProfitLoss\<close> return null.
\<close>

theorem delete_missing_id:
  "(i \<notin> set (map v_id (vehicles s)) \<longrightarrow>
      deleteVehicle i s = (Inl VehicleNotFound, s) \<and>
      getVehicleById i s = None \<and> getVehicleProfitLoss i s = None) \<and>
   (i \<notin> set (map vd_id (vendors s)) \<longrightarrow>
      deleteVendor i s = (Inl VendorNotFound, s) \<and> getVendorById i s = None) \<and>
   (i \<notin> set (map t_id (transactions s)) \<longrightarrow>
      deleteTransaction now i s = (Inl TransactionNotFound, s) \<and>
      getTransactionById i s = None) \<and>
   (i \<notin> set (map e_id (expenses s)) \<longrightarrow>
      deleteExpense i s = (Inr \<lparr>success = False\<rparr>, s) \<and> getExpenseById i s = None)"
  by (intro conjI impI deleteVehicle_missing deleteVendor_missing deleteTransaction_missing
        deleteExpense_missing lookups_missing)

theorem delete_missing_id_witness:
  "999 \<notin> set (map v_id (vehicles garage_store)) \<and>
   999 \<notin> set (map vd_id (vendors garage_store)) \<and>
   999 \<notin> set (map t_id (transactions garage_store)) \<and>
   999 \<notin> set (map e_id (expenses garage_store)) \<and>
   deleteVehicle 999 garage_store = (Inl VehicleNotFound, garage_store) \<and>
   getVehicleById 999 garage_store = None \<and>
   getVehicleProfitLoss 999 garage_store = None \<and>
   deleteVendor 999 garage_store = (Inl VendorNotFound, garage_store) \<and>
   getVendorById 999 garage_store = None \<and>
   deleteTransaction 1707000000000 999 garage_store = (Inl TransactionNotFound, garage_store) \<and>
   getTransactionById 999 garage_store = None \<and>
   deleteExpense 999 garage_store = (Inr \<lparr>success = False\<rparr>, garage_store) \<and>
   getExpenseById 999 garage_store = None"
proof -
  have h1: "999 \<notin> set (map v_id (vehicles garage_store))"
    by (simp add: garage_store_def listed_vehicle_def sold_vehicle_def)
  have h2: "999 \<notin> set (map vd_id (vendors garage_store))"
    by (simp add: garage_store_def test_vendor_def)
  have h3: "999 \<notin> set (map t_id (transactions garage_store))"
    by (simp add: garage_store_def)
  have h4: "999 \<notin> set (map e_id (expenses garage_store))"
    by (simp add: garage_store_def)
  show ?thesis
    using delete_missing_id[of 999 garage_store 1707000000000] h1 h2 h3 h4 by simp
qed

text \<open>
  The claim as stated asks a not-found failure of \<open>deleteExpense\<close> too. On the example
  inventory, where no expense has id 999, the handler returns a result, not an error.
\<close>

theorem deleteExpense_missing_counterexample:
  "999 \<notin> set (map e_id (expenses garage_store)) \<and>
   fst (deleteExpense 999 garage_store) = Inr \<lparr>success = False\<rparr>"
  by (simp add: deleteExpense_def garage_store_def)

text \<open>
  Claim C8. When the vendor exists and at least one expense refers to it,
  \<open>deleteVendor\<close> fails with the conflict error and the store after the call is the
  store before it: the vendor row and the expenses that refer to it are untouched.
\<close>

theorem deleteVendor_conflict:
  assumes vendor: "i \<in> set (map vd_id (vendors s))"
      and referenced: "Some i \<in> set (map e_vendor_id (expenses s))"
  shows "deleteVendor i s = (Inl VendorHasExpenses, s)"
proof -
  have v: "filter (\<lambda>vd. vd_id vd = i) (vendors s) \<noteq> []"
    using vendor by (auto simp: filter_empty_conv)
  have e: "filter (\<lambda>e. e_vendor_id e = Some i) (expenses s) \<noteq> []"
    using referenced by (auto simp: filter_empty_conv)
  show ?thesis using v e by (simp add: deleteVendor_def)
qed

theorem deleteVendor_conflict_witness:
  "1 \<in> set (map vd_id (vendors garage_store)) \<and>
   Some 1 \<in> set (map e_vendor_id (expenses garage_store)) \<and>
   deleteVendor 1 garage_store = (Inl VendorHasExpenses, garage_store) \<and>
   getVendorById 1 (snd (deleteVendor 1 garage_store)) = Some test_vendor \<and>
   map e_vendor_id (expenses (snd (deleteVendor 1 garage_store))) = [Some 1, Some 1, None]"
proof -
  have h1: "1 \<in> set (map vd_id (vendors garage_store))"
    by (simp add: garage_store_def test_vendor_def)
  have h2: "Some 1 \<in> set (map e_vendor_id (expenses garage_store))"
    by (simp add: garage_store_def)
  have d: "deleteVendor 1 garage_store = (Inl VendorHasExpenses, garage_store)"
    by (rule deleteVendor_conflict[OF h1 h2])
  have g: "getVendorById 1 garage_store = Some test_vendor"
    by (simp add: getVendorById_def garage_store_def test_vendor_def)
  have e: "map e_vendor_id (expenses garage_store) = [Some 1, Some 1, None]"
    by (simp add: garage_store_def)
  show ?thesis using h1 h2 g e unfolding d by simp
qed

text \<open>
  The existence checks of the create and update handlers: a missing vehicle, or a
  missing vendor whose id is not 0, is an error and nothing is written. An update that
  sets vendor_id 0 passes the handler's check and is refused by the foreign key.
\<close>

lemma createExpense_missing_vehicle:
  "cei_vehicle_id input \<notin> set (map v_id (vehicles s)) \<Longrightarrow>
     createExpense now input s = (Inl VehicleNotFound, s)"
  by (simp add: createExpense_def filter_vehicle_id_absent)

lemma createExpense_missing_vendor:
  assumes "cei_vehicle_id input \<in> set (map v_id (vehicles s))"
      and "cei_vendor_id input = Some i" "i \<noteq> 0" "i \<notin> set (map vd_id (vendors s))"
  shows "createExpense now input s = (Inl VendorNotFound, s)"
proof -
  have v: "filter (\<lambda>v. v_id v = cei_vehicle_id input) (vehicles s) \<noteq> []"
    using assms(1) by (auto simp: filter_empty_conv)
  have "filter (\<lambda>vd. Some (vd_id vd) = cei_vendor_id input) (vendors s) = []"
    using assms(2,4) by (auto simp: filter_empty_conv)
  then show ?thesis using v assms(2,3) by (simp add: createExpense_def truthy_number_def)
qed

lemma updateExpense_missing_vendor:
  assumes "uei_vendor_id input = Some (Some i)" "i \<noteq> 0" "i \<notin> set (map vd_id (vendors s))"
  shows "\<exists>e. updateExpense input s = (Inl e, s)"
proof -
  have "filter (\<lambda>vd. Some (Some (vd_id vd)) = uei_vendor_id input) (vendors s) = []"
    using assms(1,3) by (auto simp: filter_empty_conv)
  then show ?thesis using assms(1,2)
    by (cases "filter (\<lambda>e. e_id e = uei_id input) (expenses s)")
       (simp_all add: updateExpense_def truthy_number_def)
qed

lemma updateExpense_zero_vendor:
  assumes "uei_vendor_id input = Some (Some 0)" "0 \<notin> set (map vd_id (vendors s))"
  shows "\<exists>e. updateExpense input s = (Inl e, s) \<and> e \<noteq> VendorNotFound"
proof -
  have f: "filter (\<lambda>vd. vd_id vd = 0) (vendors s) = []"
    using assms(2) by (auto simp: filter_empty_conv)
  have n: "\<not> no_values_to_set input"
    using assms(1) by (simp add: no_values_to_set_def)
  show ?thesis
    using assms(1) f n
    by (cases "filter (\<lambda>e. e_id e = uei_id input) (expenses s)";
        cases "update_amount (uei_amount input)")
       (auto simp: updateExpense_def truthy_number_def vendor_reference_ok_def
          update_amount_def split: option.splits)
qed

text \<open>A call of one of the three handlers that fails has written nothing.\<close>

lemma createTransaction_error_writes_nothing:
  "createTransaction now input s = (Inl e, s') \<Longrightarrow> s' = s"
  by (auto simp: createTransaction_def Let_def split: list.splits option.splits)

lemma createExpense_error_writes_nothing:
  "createExpense now input s = (Inl e, s') \<Longrightarrow> s' = s"
  by (auto simp: createExpense_def Let_def split: if_splits option.splits)

lemma updateExpense_error_writes_nothing:
  "updateExpense input s = (Inl e, s') \<Longrightarrow> s' = s"
  by (auto simp: updateExpense_def split: list.splits if_splits sum.splits)

lemma createTransaction_missing_vehicle:
  "cti_vehicle_id input \<notin> set (map v_id (vehicles s)) \<Longrightarrow>
     createTransaction now input s = (Inl VehicleNotFound, s)"
  by (simp add: createTransaction_def filter_vehicle_id_absent)

text \<open>
  Claim C9 asks that \<open>createExpense\<close> with a vendor_id that no vendor has, 0 included,
  fails and inserts nothing. With vendor_id 0 the truthiness test skips the vendor
  lookup: on a store without vendors the call succeeds and inserts an expense row whose
  vendor_id is null.
\<close>

theorem createExpense_zero_vendor:
  "0 \<notin> set (map vd_id (vendors test_store)) \<and>
   createExpense 1705300000000 zero_vendor_input test_store =
     (Inr \<lparr>e_id = 1, e_vehicle_id = 1, e_vendor_id = None, e_amount = 10000,
           e_expense_type = ExpOther, e_description = ''Test expense'',
           e_expense_date = 1705276800000, e_created_at = 1705300000000\<rparr>,
      test_store\<lparr>expenses :=
                   [\<lparr>e_id = 1, e_vehicle_id = 1, e_vendor_id = None, e_amount = 10000,
                     e_expense_type = ExpOther, e_description = ''Test expense'',
                     e_expense_date = 1705276800000, e_created_at = 1705300000000\<rparr>],
                 next_expense_id := 2\<rparr>)"
  by (simp add: createExpense_def zero_vendor_input_def test_store_def test_vehicle_def
        truthy_number_def numeric_10_2_examples Let_def)

section \<open>Reports\<close>

lemma profit_loss_row_fields:
  "pl_vehicle_id (profit_loss_row s v) = v_id v"
  "pl_acquisition_cost (profit_loss_row s v) = v_acquisition_cost v"
  "pl_total_expenses (profit_loss_row s v) =
     sum_list (map e_amount (filter (\<lambda>e. e_vehicle_id e = v_id v) (expenses s)))"
  "pl_total_cost (profit_loss_row s v) =
     v_acquisition_cost v + pl_total_expenses (profit_loss_row s v)"
  "pl_sale_price (profit_loss_row s v) = v_sale_price v"
  "pl_is_sold (profit_loss_row s v) = (v_sale_price v \<noteq> None)"
  by (simp_all add: profit_loss_row_def total_expenses_of_def Let_def)

lemma profit_loss_row_profit:
  "pl_profit_loss (profit_loss_row s v) =
     (case v_sale_price v of
        None \<Rightarrow> None
      | Some p \<Rightarrow> if p = 0 then None else Some (p - pl_total_cost (profit_loss_row s v)))"
  by (simp add: profit_loss_row_def truthy_number_def Let_def split: option.splits)

lemma getProfitLossReport_no_filter:
  "getProfitLossReport None s = map (profit_loss_row s) (vehicles s)"
  by (simp add: getProfitLossReport_def vehicle_conditions_def)

text \<open>
  A make or model filter that is the empty string is not truthy and filters nothing.
\<close>

lemma empty_make_filter_ignored:
  "getProfitLossReport
     (Some \<lparr>f_start_date = None, f_end_date = None, f_status = None,
             f_make = Some [], f_model = None\<rparr>) s =
   getProfitLossReport None s"
  by (simp add: getProfitLossReport_def vehicle_conditions_def truthy_string_def)

text \<open>
  Claim C1 asks \<open>profit_loss = sale_price - total_cost\<close> whenever sale_price is
  present, 0 included. After a sale for the amount 0 of a vehicle that cost 25000.00,
  the report row has sale_price 0 and is_sold true, but profit_loss null where the
  claim asks -25000.00.
\<close>

theorem profit_loss_zero_sale_price:
  "getProfitLossReport None
     (snd (createTransaction 1705750000000 zero_sale_input test_store)) =
     [\<lparr>pl_vehicle_id = 1, pl_acquisition_cost = 2500000, pl_total_expenses = 0,
       pl_total_cost = 2500000, pl_sale_price = Some 0, pl_profit_loss = None,
       pl_is_sold = True\<rparr>]"
  by (simp add: getProfitLossReport_no_filter profit_loss_row_def total_expenses_of_def
        truthy_number_def createTransaction_def zero_sale_input_def test_store_def
        test_vehicle_def mark_sold_def numeric_10_2_examples Let_def)

lemma conditions_without_dates:
  assumes "f_start_date f = None" "f_end_date f = None"
  shows "vehicle_conditions (Some f) = vehicle_attribute_conditions (Some f)"
    and "expense_date_conditions (Some f) = []"
  using assms
  by (simp_all add: vehicle_conditions_def vehicle_attribute_conditions_def
        expense_date_conditions_def)

lemma export_agrees_without_dates:
  assumes "f_start_date f = None" "f_end_date f = None"
  shows "exportExpenseBreakdownToCSV (Some f) s =
           formatExpenseBreakdown (getExpenseBreakdown (Some f) s)"
proof (cases "truthy_object (f_status f) \<or> truthy_string (f_make f) \<or> truthy_string (f_model f)")
  case True
  then show ?thesis
    using assms
    by (simp add: exportExpenseBreakdownToCSV_def getExpenseBreakdown_def
          formatExpenseBreakdown_def conditions_without_dates Let_def truthy_object_def)
next
  case False
  then show ?thesis
    using assms
    by (simp add: exportExpenseBreakdownToCSV_def getExpenseBreakdown_def
          formatExpenseBreakdown_def conditions_without_dates Let_def truthy_object_def)
qed

lemma export_agrees_without_filters:
  "exportExpenseBreakdownToCSV None s = formatExpenseBreakdown (getExpenseBreakdown None s)"
  by (simp add: exportExpenseBreakdownToCSV_def getExpenseBreakdown_def
        formatExpenseBreakdown_def expense_date_conditions_def Let_def)

lemma breakdown_start_date_example:
  "getExpenseBreakdown (Some start_date_filter) garage_store =
     [\<lparr>eb_expense_type = ExpRepairs, eb_total_amount = 200000, eb_count = 1\<rparr>,
      \<lparr>eb_expense_type = ExpMarketing, eb_total_amount = 80000, eb_count = 1\<rparr>]"
  by (simp add: getExpenseBreakdown_def expense_date_conditions_def start_date_filter_def
        garage_store_def group_by_expense_type_def truthy_object_def truthy_string_def
        Let_def)

text \<open>
  Claim C3 asks that the CSV export is the formatting of \<open>getExpenseBreakdown\<close> on
  the same filters. The two agree when no date filter is given (lemmas above). With a
  start date of 2024-01-10 on the example inventory, \<open>getExpenseBreakdown\<close> selects
  the two expenses dated on or after that day, while the export compares the date with
  the acquisition date of the vehicles, finds none and emits the header alone.
\<close>

theorem export_differs_on_date_filter:
  "exportExpenseBreakdownToCSV (Some start_date_filter) garage_store =
     ''Expense Type,Total Amount,Count\<newline>'' \<and>
   formatExpenseBreakdown (getExpenseBreakdown (Some start_date_filter) garage_store) =
     ''Expense Type,Total Amount,Count\<newline>'' @
     [CHR 0x22] @ ''repairs'' @ [CHR 0x22] @ '',2000.00,1\<newline>'' @
     [CHR 0x22] @ ''marketing'' @ [CHR 0x22] @ '',800.00,1\<newline>''"
proof
  show "exportExpenseBreakdownToCSV (Some start_date_filter) garage_store =
     ''Expense Type,Total Amount,Count\<newline>''"
    by (simp add: exportExpenseBreakdownToCSV_def vehicle_conditions_def
          start_date_filter_def garage_store_def listed_vehicle_def sold_vehicle_def
          expense_vehicle_join_def group_by_expense_type_def truthy_object_def
          truthy_string_def expense_csv_header_def Let_def)
  show "formatExpenseBreakdown (getExpenseBreakdown (Some start_date_filter) garage_store) =
     ''Expense Type,Total Amount,Count\<newline>'' @
     [CHR 0x22] @ ''repairs'' @ [CHR 0x22] @ '',2000.00,1\<newline>'' @
     [CHR 0x22] @ ''marketing'' @ [CHR 0x22] @ '',800.00,1\<newline>''"
    unfolding breakdown_start_date_example
    by (simp add: formatExpenseBreakdown_def expense_csv_row_def expense_csv_header_def
          toFixed2_def string_of_nat.simps digit_char_def)
qed

lemma extract_day_truncates:
  "extract_day diff = sgn diff * (\<bar>diff\<bar> div ms_per_day)"
  by (cases "0 \<le> diff") (auto simp: extract_day_def sgn_if ms_per_day_def)

lemma extract_day_bounds:
  "0 \<le> diff \<Longrightarrow> extract_day diff * ms_per_day \<le> diff \<and> diff < (extract_day diff + 1) * ms_per_day"
  unfolding extract_day_def ms_per_day_def by simp presburger

text \<open>
  Claim C6. \<open>getInventoryAging\<close> returns one record per vehicle whose status is
  listed, in order, and none for any other vehicle. Every record has status listed and
  belongs to a listed vehicle of the store; its days_in_inventory is the number of
  whole days between \<open>now\<close> and the acquisition date, rounded towards zero, and its
  total_cost is the acquisition cost plus the sum of the vehicle's expense amounts.
\<close>

theorem inventory_aging_listed_only:
  "map ia_vehicle_id (getInventoryAging now s) =
     map v_id (filter (\<lambda>v. v_status v = Listed) (vehicles s)) \<and>
   (\<forall>r \<in> set (getInventoryAging now s).
      ia_status r = Listed \<and>
      (\<exists>v \<in> set (vehicles s).
         v_status v = Listed \<and> ia_vehicle_id r = v_id v \<and>
         ia_days_in_inventory r =
           sgn (now - v_acquisition_date v) * (\<bar>now - v_acquisition_date v\<bar> div ms_per_day) \<and>
         ia_total_cost r =
           v_acquisition_cost v +
           sum_list (map e_amount (filter (\<lambda>e. e_vehicle_id e = v_id v) (expenses s)))))"
proof (intro conjI ballI)
  show "map ia_vehicle_id (getInventoryAging now s) =
          map v_id (filter (\<lambda>v. v_status v = Listed) (vehicles s))"
    by (simp add: getInventoryAging_def inventory_aging_row_def)
next
  fix r assume "r \<in> set (getInventoryAging now s)"
  then obtain v where v: "v \<in> set (vehicles s)" "v_status v = Listed"
      and r: "r = inventory_aging_row now s v"
    by (auto simp: getInventoryAging_def)
  show "ia_status r = Listed" by (simp add: r v(2) inventory_aging_row_def)
  have "ia_vehicle_id r = v_id v \<and>
         ia_days_in_inventory r =
           sgn (now - v_acquisition_date v) * (\<bar>now - v_acquisition_date v\<bar> div ms_per_day) \<and>
         ia_total_cost r =
           v_acquisition_cost v +
           sum_list (map e_amount (filter (\<lambda>e. e_vehicle_id e = v_id v) (expenses s)))"
    by (simp add: r inventory_aging_row_def extract_day_truncates total_expenses_of_def)
  with v show "\<exists>v \<in> set (vehicles s).
         v_status v = Listed \<and> ia_vehicle_id r = v_id v \<and>
         ia_days_in_inventory r =
           sgn (now - v_acquisition_date v) * (\<bar>now - v_acquisition_date v\<bar> div ms_per_day) \<and>
         ia_total_cost r =
           v_acquisition_cost v +
           sum_list (map e_amount (filter (\<lambda>e. e_vehicle_id e = v_id v) (expenses s)))"
    by blast
qed

theorem inventory_aging_listed_only_witness:
  "getInventoryAging 1706788800000 garage_store =
     [\<lparr>ia_vehicle_id = 1, ia_vin = ''VIN001'', ia_make = ''Toyota'', ia_model = ''Camry'',
       ia_year = 2020, ia_status = Listed, ia_acquisition_date = 1704067200000,
       ia_days_in_inventory = 31, ia_total_cost = 1750000\<rparr>] \<and>
   sgn (1706788800000 - 1704067200000) *
     (\<bar>1706788800000 - 1704067200000\<bar> div ms_per_day) = (31::int) \<and>
   map v_status (vehicles garage_store) = [Listed, Sold]"
  using inventory_aging_listed_only[of 1706788800000 garage_store]
  by (simp add: getInventoryAging_def inventory_aging_row_def garage_store_def
        listed_vehicle_def sold_vehicle_def extract_day_def ms_per_day_def
        total_expenses_of_def)

section \<open>Dashboard figures\<close>

lemma sum_pair_filter:
  "sum_list (map (\<lambda>(e, v). e_amount e) (filter (\<lambda>(e, v). P v) (map (Pair e0) ws))) =
     sum_list (map (\<lambda>v. e_amount e0) (filter P ws))"
  by (induction ws) simp_all

lemma sum_const_filter_filter:
  "sum_list (map (\<lambda>v. c) (filter (\<lambda>x. Q x \<and> P x) vs)) =
     sum_list (map (\<lambda>v. if Q v then c else (0::int)) (filter P vs))"
  by (induction vs) simp_all

lemma join_sum_swap:
  "sum_list (map (\<lambda>(e, v). e_amount e)
       (filter (\<lambda>(e, v). P v)
          (concat (map (\<lambda>e. map (Pair e) (filter (\<lambda>v. v_id v = e_vehicle_id e) vs)) es)))) =
   sum_list (map (\<lambda>v. sum_list (map e_amount (filter (\<lambda>e. e_vehicle_id e = v_id v) es)))
       (filter P vs))"
proof (induction es)
  case Nil
  show ?case by simp
next
  case (Cons e es)
  have split: "\<And>v. sum_list (map e_amount (filter (\<lambda>e'. e_vehicle_id e' = v_id v) (e # es))) =
      (if v_id v = e_vehicle_id e then e_amount e else 0) +
      sum_list (map e_amount (filter (\<lambda>e'. e_vehicle_id e' = v_id v) es))"
    by auto
  show ?case
    unfolding split sum_list_addf
    by (simp add: sum_pair_filter sum_const_filter_filter Cons.IH)
qed

text \<open>
  Claim C7. \<open>total_inventory\<close> is the number of vehicles that are neither sold nor
  archived, and \<open>total_inventory_value\<close> is the sum of their acquisition costs plus
  the sum, over the same vehicles, of the amounts of the expenses attached to each. In
  the example inventory the listed vehicle (15000.00, expenses of 2000.00 and 500.00)
  contributes 17500.00 and the sold one nothing.
\<close>

theorem dashboard_inventory_value:
  "kpi_total_inventory (getDashboardKpis now s) =
     length (filter (\<lambda>v. v_status v \<noteq> Sold \<and> v_status v \<noteq> Archived) (vehicles s)) \<and>
   kpi_total_inventory_value (getDashboardKpis now s) =
     sum_list (map v_acquisition_cost
                 (filter (\<lambda>v. v_status v \<noteq> Sold \<and> v_status v \<noteq> Archived) (vehicles s))) +
     sum_list (map (\<lambda>v. sum_list (map e_amount
                                     (filter (\<lambda>e. e_vehicle_id e = v_id v) (expenses s))))
                 (filter (\<lambda>v. v_status v \<noteq> Sold \<and> v_status v \<noteq> Archived) (vehicles s)))"
proof -
  have c: "kpi_total_inventory (getDashboardKpis now s) =
     length (filter (\<lambda>v. v_status v \<noteq> Sold \<and> v_status v \<noteq> Archived) (vehicles s))"
    by (simp add: getDashboardKpis_def Let_def)
  have v: "kpi_total_inventory_value (getDashboardKpis now s) =
     sum_list (map v_acquisition_cost
                 (filter (\<lambda>v. v_status v \<noteq> Sold \<and> v_status v \<noteq> Archived) (vehicles s))) +
     sum_list (map (\<lambda>(e, v). e_amount e)
                 (filter (\<lambda>(e, v). v_status v \<noteq> Sold \<and> v_status v \<noteq> Archived)
                    (expense_vehicle_join s)))"
    by (simp add: getDashboardKpis_def Let_def)
  have j: "sum_list (map (\<lambda>(e, v). e_amount e)
                 (filter (\<lambda>(e, v). v_status v \<noteq> Sold \<and> v_status v \<noteq> Archived)
                    (expense_vehicle_join s))) =
     sum_list (map (\<lambda>v. sum_list (map e_amount
                                     (filter (\<lambda>e. e_vehicle_id e = v_id v) (expenses s))))
                 (filter (\<lambda>v. v_status v \<noteq> Sold \<and> v_status v \<noteq> Archived) (vehicles s)))"
    unfolding expense_vehicle_join_def by (rule join_sum_swap)
  show ?thesis unfolding c v j by simp
qed

theorem dashboard_inventory_value_witness:
  "kpi_total_inventory (getDashboardKpis 1706788800000 garage_store) = 1 \<and>
   kpi_total_inventory_value (getDashboardKpis 1706788800000 garage_store) = 1750000"
  using dashboard_inventory_value[of 1706788800000 garage_store]
  by (simp add: garage_store_def listed_vehicle_def sold_vehicle_def)

text \<open>
  Claim C5, as the code has it. \<open>vehicles_sold_this_month\<close> is the number of vehicles
  with status sold whose sale_date is on or after the first day of the current
  calendar month. The query has no upper bound: a sale_date after \<open>now\<close> counts.
\<close>

theorem sold_this_month_lower_bound_only:
  "kpi_vehicles_sold_this_month (getDashboardKpis now s) =
     length (filter (\<lambda>v. v_status v = Sold \<and>
                         (\<exists>d. v_sale_date v = Some d \<and> start_of_month now \<le> d))
                    (vehicles s))"
proof -
  have "filter (\<lambda>v. v_status v = Sold \<and>
             (case v_sale_date v of None \<Rightarrow> False | Some d \<Rightarrow> start_of_month now \<le> d))
          (vehicles s) =
        filter (\<lambda>v. v_status v = Sold \<and>
             (\<exists>d. v_sale_date v = Some d \<and> start_of_month now \<le> d)) (vehicles s)"
    by (rule filter_cong) (auto split: option.splits)
  then show ?thesis
    by (simp add: getDashboardKpis_def Let_def sold_since_def)
qed

lemma start_of_month_example: "start_of_month 1705708800000 = 1704067200000"
  by code_simp

text \<open>
  The claim as stated bounds the interval by \<open>now\<close>. On 2024-01-20 a sale recorded
  with the date 2024-01-25 is counted by the dashboard, and is outside the closed
  interval from 2024-01-01 to \<open>now\<close>.
\<close>

theorem sold_after_now_counterexample:
  "kpi_vehicles_sold_this_month
     (getDashboardKpis 1705708800000
        (snd (createTransaction 1705708800000 future_sale_input test_store))) = 1 \<and>
   sold_this_month_within 1705708800000
     (snd (createTransaction 1705708800000 future_sale_input test_store)) = 0"
  by (simp add: getDashboardKpis_def sold_since_def sold_this_month_within_def
        start_of_month_example createTransaction_def future_sale_input_def test_store_def
        test_vehicle_def mark_sold_def numeric_10_2_examples Let_def)

end
